theory Spec2Isabelle
  imports
    Complex_Main
    "HOL-Library.Sublist"
    "HOL-Library.Char_ord"
    "HOL-Library.List_Lexorder"
begin

section \<open>Inventory search backend (\<^verbatim>\<open>src/backend/index.js\<close>)\<close>

text \<open>
  The backend keeps an array \<^verbatim>\<open>inventoryData\<close> loaded once from a JSON file and serves
  two routes, \<^verbatim>\<open>GET /search\<close> and \<^verbatim>\<open>GET /categories\<close>. Both handlers are pure functions
  of the array and of the query parameters, so each is embedded as a HOL function that
  takes the array as an argument.

  Conventions of the embedding:
  \<^item> a JavaScript string is a list of code units; the development covers the code units
    below 256 (ASCII and Latin-1), which is what \<^typ>\<open>char\<close> holds;
  \<^item> a query parameter is \<^verbatim>\<open>undefined\<close> or a string, as the route documents its
    parameters: \<^typ>\<open>string option\<close> with \<^term>\<open>None\<close> for \<^verbatim>\<open>undefined\<close>. In the echoed
    \<^verbatim>\<open>query\<close> object of a response \<^term>\<open>None\<close> stands for \<^verbatim>\<open>null\<close>;
  \<^item> a JavaScript number is \<^verbatim>\<open>NaN\<close>, an infinity or a rational. Prices come from JSON
    and are finite. Rounding of decimal literals to binary floating point is not
    modelled: a literal denotes its exact decimal value;
  \<^item> with string parameters and records carrying string names and categories, no
    statement inside the handlers' \<^verbatim>\<open>try\<close> blocks throws, so the \<^verbatim>\<open>catch\<close> branches
    (status 500) are not reached and have no counterpart in the functions below.
\<close>

subsection \<open>Data\<close>

text \<open>One element of \<^verbatim>\<open>inventoryData\<close>. The field \<^verbatim>\<open>id\<close> is named \<open>item_id\<close> here.\<close>

record item =
  item_id :: int
  product_name :: string
  category :: string
  price :: rat
  quantity :: int
  supplier :: string
  city :: string

text \<open>
  The object \<^verbatim>\<open>req.query\<close> restricted to the four parameters the handler destructures,
  and also the \<^verbatim>\<open>query\<close> object echoed in a successful response.
\<close>

record query =
  q :: "string option"
  category :: "string option"
  minPrice :: "string option"
  maxPrice :: "string option"

text \<open>
  The two response shapes of \<^verbatim>\<open>/search\<close>: \<^verbatim>\<open>res.json({success: true, count, query, results})\<close>
  (status 200) and \<^verbatim>\<open>res.status(code).json({success: false, error, results})\<close>.
\<close>

datatype response =
    SearchSuccess nat query "item list"
  | SearchFailure nat string "item list"

fun status :: "response \<Rightarrow> nat" where
  "status (SearchSuccess n qe rs) = 200"
| "status (SearchFailure code msg rs) = code"

fun success :: "response \<Rightarrow> bool" where
  "success (SearchSuccess n qe rs) = True"
| "success (SearchFailure code msg rs) = False"

fun results :: "response \<Rightarrow> item list" where
  "results (SearchSuccess n qe rs) = rs"
| "results (SearchFailure code msg rs) = rs"

fun count :: "response \<Rightarrow> nat option" where
  "count (SearchSuccess n qe rs) = Some n"
| "count (SearchFailure code msg rs) = None"


subsection \<open>JavaScript built-ins used by the handlers\<close>

text \<open>\<^verbatim>\<open>ToBoolean\<close> of a parameter: \<^verbatim>\<open>undefined\<close> and the empty string are falsy.\<close>

definition truthy :: "string option \<Rightarrow> bool" where
  "truthy v = (case v of None \<Rightarrow> False | Some s \<Rightarrow> s \<noteq> [])"

text \<open>\<^verbatim>\<open>v || null\<close>\<close>

definition orNull :: "string option \<Rightarrow> string option" where
  "orNull v = (if truthy v then v else None)"

text \<open>
  \<^verbatim>\<open>String.prototype.toLowerCase\<close> on code units below 256: the letters A to Z and the
  Latin-1 capitals 0xC0 to 0xDE, the multiplication sign 0xD7 excepted, move up by 32.
\<close>

definition toLowerChar :: "char \<Rightarrow> char" where
  "toLowerChar c =
     (let n = (of_char c :: nat)
      in if (65 \<le> n \<and> n \<le> 90) \<or> (192 \<le> n \<and> n \<le> 222 \<and> n \<noteq> 215)
         then char_of (n + 32) else c)"

definition toLowerCase :: "string \<Rightarrow> string" where
  "toLowerCase s = map toLowerChar s"

text \<open>
  \<^verbatim>\<open>StringIndexOf(string, searchValue, fromIndex)\<close> of the language specification: the
  least index \<open>i \<ge> fromIndex\<close> with \<open>i + searchLen \<le> len\<close> at which \<open>searchValue\<close>
  occurs, or \<^term>\<open>None\<close> for the result -1. \<^verbatim>\<open>String.prototype.includes\<close> searches from 0
  (named \<open>includes_str\<close> here, \<open>includes\<close> being a keyword).
\<close>

function StringIndexOf :: "string \<Rightarrow> string \<Rightarrow> nat \<Rightarrow> nat option" where
  "StringIndexOf s t i =
     (if i + length t \<le> length s
      then (if take (length t) (drop i s) = t then Some i else StringIndexOf s t (Suc i))
      else None)"
  by pat_completeness auto
termination
  by (relation "measure (\<lambda>(s, t, i). Suc (length s) - i)") auto

definition includes_str :: "string \<Rightarrow> string \<Rightarrow> bool" where
  "includes_str s t = (StringIndexOf s t 0 \<noteq> None)"

text \<open>Numbers, and the abstract relational comparison (\<^term>\<open>None\<close> is its result \<^verbatim>\<open>undefined\<close>).\<close>

datatype number = NaN | NegInfinity | Num rat | Infinity

fun IsLessThan :: "number \<Rightarrow> number \<Rightarrow> bool option" where
  "IsLessThan NaN y = None"
| "IsLessThan x NaN = None"
| "IsLessThan (Num a) (Num b) = Some (a < b)"
| "IsLessThan Infinity y = Some False"
| "IsLessThan x Infinity = Some True"
| "IsLessThan x NegInfinity = Some False"
| "IsLessThan NegInfinity y = Some True"

text \<open>\<^verbatim>\<open>x >= y\<close>, \<^verbatim>\<open>x <= y\<close> and \<^verbatim>\<open>x > y\<close> on numbers.\<close>

definition ge :: "number \<Rightarrow> number \<Rightarrow> bool" where
  "ge x y = (IsLessThan x y = Some False)"

definition le :: "number \<Rightarrow> number \<Rightarrow> bool" where
  "le x y = (IsLessThan y x = Some False)"

definition gt :: "number \<Rightarrow> number \<Rightarrow> bool" where
  "gt x y = (IsLessThan y x = Some True)"

definition isNaN :: "number \<Rightarrow> bool" where
  "isNaN x = (x = NaN)"

text \<open>
  \<^verbatim>\<open>parseFloat\<close>: skip leading white space, then read the longest prefix that is a
  \<^verbatim>\<open>StrDecimalLiteral\<close> (an optional sign, then \<^verbatim>\<open>Infinity\<close>, or digits with an optional
  fraction, or a fraction, each with an optional exponent); \<^verbatim>\<open>NaN\<close> when there is none.
  Whatever follows the literal is ignored.
\<close>

definition isWhiteSpace :: "char \<Rightarrow> bool" where
  "isWhiteSpace c = (of_char c \<in> {9, 10, 11, 12, 13, 32, 160 :: nat})"

definition isDigit :: "char \<Rightarrow> bool" where
  "isDigit c = (48 \<le> (of_char c :: nat) \<and> (of_char c :: nat) \<le> 57)"

definition digitsValue :: "string \<Rightarrow> nat" where
  "digitsValue ds = foldl (\<lambda>a c. 10 * a + (of_char c - 48)) 0 ds"

definition splitSign :: "string \<Rightarrow> bool \<times> string" where
  "splitSign s =
     (case s of
        [] \<Rightarrow> (False, s)
      | c # r \<Rightarrow> if c = CHR ''-'' then (True, r) else if c = CHR ''+'' then (False, r) else (False, s))"

definition exponentPart :: "string \<Rightarrow> int" where
  "exponentPart s =
     (case s of
        [] \<Rightarrow> 0
      | c # r \<Rightarrow>
          if c = CHR ''e'' \<or> c = CHR ''E''
          then (let (neg, r') = splitSign r; ds = takeWhile isDigit r'
                in if ds = [] then 0
                   else if neg then - int (digitsValue ds) else int (digitsValue ds))
          else 0)"

definition scale10 :: "rat \<Rightarrow> int \<Rightarrow> rat" where
  "scale10 m e = (if 0 \<le> e then m * 10 ^ nat e else m / 10 ^ nat (- e))"

definition parseFloat :: "string \<Rightarrow> number" where
  "parseFloat s =
     (let (neg, u) = splitSign (dropWhile isWhiteSpace s)
      in if prefix ''Infinity'' u then (if neg then NegInfinity else Infinity)
         else
           let ip = takeWhile isDigit u;
               r1 = dropWhile isDigit u;
               (fp, r2) = (case r1 of
                             [] \<Rightarrow> ([], r1)
                           | c # r \<Rightarrow> if c = CHR ''.''
                                      then (takeWhile isDigit r, dropWhile isDigit r)
                                      else ([], r1))
           in if ip = [] \<and> fp = [] then NaN
              else
                let m = of_nat (digitsValue ip) + of_nat (digitsValue fp) / 10 ^ length fp;
                    v = scale10 m (exponentPart r2)
                in Num (if neg then - v else v))"

text \<open>
  \<^verbatim>\<open>new Set(xs)\<close> spread back into an array: the distinct elements in the order of their
  first occurrence. \<^verbatim>\<open>Array.prototype.sort\<close> without a comparator orders strings by
  code units, which is the lexicographic order of \<^typ>\<open>string\<close>.
\<close>

definition Set_add :: "'a list \<Rightarrow> 'a \<Rightarrow> 'a list" where
  "Set_add acc x = (if x \<in> set acc then acc else acc @ [x])"

definition new_Set :: "'a list \<Rightarrow> 'a list" where
  "new_Set xs = foldl Set_add [] xs"

subsection \<open>The helpers and the handlers\<close>

text \<open>\<^verbatim>\<open>matchesQuery\<close>, lines 19 to 23.\<close>

definition matchesQuery :: "string \<Rightarrow> string option \<Rightarrow> bool" where
  "matchesQuery text query =
     (case query of
        None \<Rightarrow> True
      | Some qs \<Rightarrow> if qs = [] then True else includes_str (toLowerCase text) (toLowerCase qs))"

text \<open>\<^verbatim>\<open>getCategories\<close>, lines 28 to 31.\<close>

definition getCategories :: "item list \<Rightarrow> string list" where
  "getCategories inventoryData = sort (new_Set (map item.category inventoryData))"

text \<open>The four filtering steps of the \<^verbatim>\<open>/search\<close> handler, lines 51 to 77, one each.\<close>

definition filterName :: "string option \<Rightarrow> item list \<Rightarrow> item list" where
  "filterName qv rs =
     (if truthy qv then filter (\<lambda>it. matchesQuery (product_name it) qv) rs else rs)"

definition filterCategory :: "string option \<Rightarrow> item list \<Rightarrow> item list" where
  "filterCategory cv rs =
     (case cv of
        None \<Rightarrow> rs
      | Some c \<Rightarrow>
          if c \<noteq> [] \<and> c \<noteq> ''all''
          then filter (\<lambda>it. toLowerCase (item.category it) = toLowerCase c) rs
          else rs)"

definition filterMin :: "string option \<Rightarrow> item list \<Rightarrow> item list" where
  "filterMin mv rs =
     (case mv of
        None \<Rightarrow> rs
      | Some s \<Rightarrow>
          if s \<noteq> []
          then (let min = parseFloat s
                in if \<not> isNaN min then filter (\<lambda>it. ge (Num (price it)) min) rs else rs)
          else rs)"

definition filterMax :: "string option \<Rightarrow> item list \<Rightarrow> item list" where
  "filterMax mv rs =
     (case mv of
        None \<Rightarrow> rs
      | Some s \<Rightarrow>
          if s \<noteq> []
          then (let max = parseFloat s
                in if \<not> isNaN max then filter (\<lambda>it. le (Num (price it)) max) rs else rs)
          else rs)"

text \<open>Lines 49 to 77: the value of \<^verbatim>\<open>results\<close> when the range validation is reached.\<close>

definition filterRecords :: "item list \<Rightarrow> query \<Rightarrow> item list" where
  "filterRecords inventoryData req =
     filterMax (maxPrice req)
       (filterMin (minPrice req)
         (filterCategory (query.category req)
           (filterName (q req) inventoryData)))"

text \<open>The condition under which lines 80 to 90 return the status 400.\<close>

definition invalidRange :: "string option \<Rightarrow> string option \<Rightarrow> bool" where
  "invalidRange mn mx =
     (case (mn, mx) of
        (Some smin, Some smax) \<Rightarrow>
          smin \<noteq> [] \<and> smax \<noteq> [] \<and>
          (let min = parseFloat smin; max = parseFloat smax
           in \<not> isNaN min \<and> \<not> isNaN max \<and> gt min max)
      | _ \<Rightarrow> False)"

definition rangeError :: string where
  "rangeError = ''Invalid price range: minPrice cannot be greater than maxPrice''"

text \<open>The \<^verbatim>\<open>/search\<close> handler, lines 44 to 113.\<close>

definition search :: "item list \<Rightarrow> query \<Rightarrow> response" where
  "search inventoryData req =
     (let rs = filterRecords inventoryData req
      in if invalidRange (minPrice req) (maxPrice req)
         then SearchFailure 400 rangeError []
         else SearchSuccess (length rs)
                \<lparr> q = orNull (q req), category = orNull (query.category req),
                  minPrice = orNull (minPrice req), maxPrice = orNull (maxPrice req) \<rparr>
                rs)"

text \<open>The \<^verbatim>\<open>/categories\<close> handler, lines 119 to 134: the \<^verbatim>\<open>categories\<close> field of its response.\<close>

definition categories :: "item list \<Rightarrow> string list" where
  "categories inventoryData = getCategories inventoryData"

text \<open>
  The number a parameter parses to, used to state the properties below; an absent
  parameter counts as unparsable (\<^verbatim>\<open>parseFloat(undefined)\<close> is \<^verbatim>\<open>NaN\<close>).
\<close>

definition parsed :: "string option \<Rightarrow> number" where
  "parsed v = (case v of None \<Rightarrow> NaN | Some s \<Rightarrow> parseFloat s)"

text \<open>A record used in the examples.\<close>

definition sample :: "string \<Rightarrow> string \<Rightarrow> rat \<Rightarrow> item" where
  "sample name cat p =
     \<lparr> item_id = 1, product_name = name, category = cat, price = p,
       quantity = 1, supplier = ''Acme'', city = ''Pune'' \<rparr>"

section \<open>Properties of the built-ins\<close>

declare StringIndexOf.simps [simp del]

text \<open>The search loop finds nothing exactly when no position at or after \<open>i\<close> matches.\<close>

lemma StringIndexOf_None_iff:
  "StringIndexOf s t i = None \<longleftrightarrow>
     (\<forall>j. i \<le> j \<and> j + length t \<le> length s \<longrightarrow> take (length t) (drop j s) \<noteq> t)"
proof (induction s t i rule: StringIndexOf.induct)
  case (1 s t i)
  show ?case
  proof (cases "i + length t \<le> length s")
    case False
    then show ?thesis
      by (subst StringIndexOf.simps) auto
  next
    case inside: True
    show ?thesis
    proof (cases "take (length t) (drop i s) = t")
      case True
      with inside show ?thesis
        by (subst StringIndexOf.simps) auto
    next
      case False
      have step: "StringIndexOf s t i = StringIndexOf s t (Suc i)"
        using inside False by (subst StringIndexOf.simps) simp
      have "(\<forall>j. i \<le> j \<and> j + length t \<le> length s \<longrightarrow> take (length t) (drop j s) \<noteq> t)
            \<longleftrightarrow> (\<forall>j. Suc i \<le> j \<and> j + length t \<le> length s \<longrightarrow> take (length t) (drop j s) \<noteq> t)"
        using False by (metis Suc_leD Suc_leI le_neq_implies_less)
      with "1.IH" [OF inside False] step show ?thesis
        by simp
    qed
  qed
qed

lemma occurs_at_iff:
  "(\<exists>pre post. s = pre @ t @ post) \<longleftrightarrow>
     (\<exists>j. j + length t \<le> length s \<and> take (length t) (drop j s) = t)"
proof
  assume "\<exists>pre post. s = pre @ t @ post"
  then obtain pre post where "s = pre @ t @ post" by blast
  then have "length pre + length t \<le> length s \<and> take (length t) (drop (length pre) s) = t"
    by simp
  then show "\<exists>j. j + length t \<le> length s \<and> take (length t) (drop j s) = t" ..
next
  assume "\<exists>j. j + length t \<le> length s \<and> take (length t) (drop j s) = t"
  then obtain j where j: "j + length t \<le> length s" "take (length t) (drop j s) = t"
    by blast
  have "s = take j s @ drop j s"
    by simp
  also have "drop j s = take (length t) (drop j s) @ drop (length t) (drop j s)"
    by (simp only: append_take_drop_id)
  finally have "s = take j s @ take (length t) (drop j s) @ drop (length t) (drop j s)" .
  with j(2) have "s = take j s @ t @ drop (length t) (drop j s)"
    by simp
  then show "\<exists>pre post. s = pre @ t @ post" by blast
qed

lemma includes_str_iff: "includes_str s t \<longleftrightarrow> (\<exists>pre post. s = pre @ t @ post)"
  unfolding includes_str_def occurs_at_iff StringIndexOf_None_iff by auto

lemma toLowerCase_Nil: "toLowerCase [] = []"
  by (simp add: toLowerCase_def)

lemma toLowerCase_eq_Nil: "toLowerCase s = [] \<longleftrightarrow> s = []"
  by (simp add: toLowerCase_def)

lemma set_new_Set_acc: "set (foldl Set_add acc xs) = set acc \<union> set xs"
  by (induction xs arbitrary: acc) (auto simp: Set_add_def)

lemma distinct_new_Set_acc: "distinct acc \<Longrightarrow> distinct (foldl Set_add acc xs)"
  by (induction xs arbitrary: acc) (auto simp: Set_add_def)

lemma set_new_Set: "set (new_Set xs) = set xs"
  by (simp add: new_Set_def set_new_Set_acc)

lemma distinct_new_Set: "distinct (new_Set xs)"
  by (simp add: new_Set_def distinct_new_Set_acc)

lemma parseFloat_Nil: "parseFloat [] = NaN"
  by (simp add: parseFloat_def splitSign_def)

lemma ge_Num: "ge (Num a) (Num b) \<longleftrightarrow> b \<le> a"
  by (auto simp: ge_def)

lemma le_Num: "le (Num a) (Num b) \<longleftrightarrow> a \<le> b"
  by (auto simp: le_def)

lemma gt_Num: "gt (Num a) (Num b) \<longleftrightarrow> b < a"
  by (simp add: gt_def)

lemma subseq_set_subset: "subseq xs ys \<Longrightarrow> set xs \<subseteq> set ys"
  by (induction rule: list_emb.induct) auto

lemma subseq_count_list: "subseq xs ys \<Longrightarrow> count_list xs x \<le> count_list ys x"
  by (induction rule: list_emb.induct) auto

section \<open>Properties of the filtering steps\<close>

lemma matchesQuery_falsy: "\<not> truthy qv \<Longrightarrow> matchesQuery text qv"
  by (auto simp: truthy_def matchesQuery_def split: option.splits)

lemma filterName_filter:
  "filterName qv rs = filter (\<lambda>it. matchesQuery (product_name it) qv) rs"
  by (cases "truthy qv") (simp_all add: filterName_def matchesQuery_falsy)

lemma filterCategory_applied:
  "c \<noteq> [] \<Longrightarrow> c \<noteq> ''all'' \<Longrightarrow>
   filterCategory (Some c) rs = filter (\<lambda>it. toLowerCase (item.category it) = toLowerCase c) rs"
  by (simp add: filterCategory_def)

lemma filterCategory_absent:
  "filterCategory None rs = rs"
  "filterCategory (Some ''all'') rs = rs"
  "filterCategory (Some []) rs = rs"
  by (simp_all add: filterCategory_def)

lemma filterMin_absent:
  "filterMin None rs = rs"
  "filterMin (Some []) rs = rs"
  by (simp_all add: filterMin_def)

lemma filterMax_absent:
  "filterMax None rs = rs"
  "filterMax (Some []) rs = rs"
  by (simp_all add: filterMax_def)



lemma filterMin_applied:
  "\<not> isNaN (parseFloat s) \<Longrightarrow>
   filterMin (Some s) rs = filter (\<lambda>it. ge (Num (price it)) (parseFloat s)) rs"
  by (auto simp: filterMin_def isNaN_def parseFloat_Nil)

lemma filterMax_applied:
  "\<not> isNaN (parseFloat s) \<Longrightarrow>
   filterMax (Some s) rs = filter (\<lambda>it. le (Num (price it)) (parseFloat s)) rs"
  by (auto simp: filterMax_def isNaN_def parseFloat_Nil)

lemma subseq_filterName: "subseq (filterName qv rs) rs"
  by (simp add: filterName_def)

lemma subseq_filterCategory: "subseq (filterCategory cv rs) rs"
  by (simp add: filterCategory_def split: option.splits)

lemma subseq_filterMin: "subseq (filterMin mv rs) rs"
  by (simp add: filterMin_def Let_def split: option.splits)

lemma subseq_filterMax: "subseq (filterMax mv rs) rs"
  by (simp add: filterMax_def Let_def split: option.splits)

lemma subseq_filterRecords: "subseq (filterRecords inventoryData req) inventoryData"
proof -
  let ?a = "filterName (q req) inventoryData"
  let ?b = "filterCategory (query.category req) ?a"
  let ?c = "filterMin (minPrice req) ?b"
  have "subseq (filterMax (maxPrice req) ?c) ?c" by (rule subseq_filterMax)
  also have "subseq ?c ?b" by (rule subseq_filterMin)
  also have "subseq ?b ?a" by (rule subseq_filterCategory)
  also have "subseq ?a inventoryData" by (rule subseq_filterName)
  finally show ?thesis by (simp add: filterRecords_def)
qed

lemma invalidRange_iff:
  "invalidRange mn mx \<longleftrightarrow>
     \<not> isNaN (parsed mn) \<and> \<not> isNaN (parsed mx) \<and> gt (parsed mn) (parsed mx)"
  by (auto simp: invalidRange_def parsed_def isNaN_def parseFloat_Nil gt_def Let_def
           split: option.splits)

lemma search_valid:
  "\<not> invalidRange (minPrice req) (maxPrice req) \<Longrightarrow>
   search inventoryData req =
     SearchSuccess (length (filterRecords inventoryData req))
       \<lparr> q = orNull (q req), category = orNull (query.category req),
         minPrice = orNull (minPrice req), maxPrice = orNull (maxPrice req) \<rparr>
       (filterRecords inventoryData req)"
  by (simp add: search_def Let_def)


lemma filterMin_Nil: "filterMin mv [] = []"
  by (simp add: filterMin_def Let_def split: option.splits)

lemma filterMax_Nil: "filterMax mv [] = []"
  by (simp add: filterMax_def Let_def split: option.splits)

lemma results_search:
  "results (search R req) =
     (if invalidRange (minPrice req) (maxPrice req) then [] else filterRecords R req)"
  by (simp add: search_def Let_def)


lemma status_search:
  "status (search R req) = (if invalidRange (minPrice req) (maxPrice req) then 400 else 200)"
  by (simp add: search_def Let_def)

lemma count_search:
  "count (search R req) =
     (if invalidRange (minPrice req) (maxPrice req) then None
      else Some (length (filterRecords R req)))"
  by (simp add: search_def Let_def)

lemma search_price_range:
  assumes "parseFloat smin = Num lo" and "parseFloat smax = Num hi" and "lo \<le> hi"
  shows "search R \<lparr> q = qv, category = cv, minPrice = Some smin, maxPrice = Some smax \<rparr> =
           SearchSuccess
             (length (filter (\<lambda>it. lo \<le> price it \<and> price it \<le> hi)
                        (filterCategory cv (filterName qv R))))
             \<lparr> q = orNull qv, category = orNull cv,
               minPrice = Some smin, maxPrice = Some smax \<rparr>
             (filter (\<lambda>it. lo \<le> price it \<and> price it \<le> hi)
                (filterCategory cv (filterName qv R)))"
proof -
  let ?req = "\<lparr> q = qv, category = cv, minPrice = Some smin, maxPrice = Some smax \<rparr>"
  have ne: "smin \<noteq> []" "smax \<noteq> []"
    using assms(1,2) by (auto simp: parseFloat_Nil)
  have "\<not> invalidRange (minPrice ?req) (maxPrice ?req)"
    using assms by (simp add: invalidRange_iff parsed_def gt_Num)
  moreover have "filterRecords R ?req =
      filter (\<lambda>it. lo \<le> price it \<and> price it \<le> hi) (filterCategory cv (filterName qv R))"
    using assms(1,2)
    by (simp add: filterRecords_def filterMin_applied filterMax_applied isNaN_def ge_Num le_Num
          conj_commute)
  moreover have "orNull (Some smin) = Some smin" "orNull (Some smax) = Some smax"
    using ne by (simp_all add: orNull_def truthy_def)
  ultimately show ?thesis
    by (simp add: search_valid)
qed

section \<open>The claims\<close>

text \<open>
  C1. For every record sequence \<open>R\<close> and all criteria \<open>C\<close>, the output of the filtering
  steps is a subsequence of \<open>R\<close>: every output record is in \<open>R\<close>, no record occurs more
  often than in \<open>R\<close>, and the relative order is that of \<open>R\<close> (all three are what
  \<^const>\<open>subseq\<close> says; the second and third conjunct spell two of them out). The same
  holds for the \<^verbatim>\<open>results\<close> field of the response. With every criterion absent the
  filter returns \<open>R\<close> itself.
\<close>

theorem filter_output_is_subsequence:
  "subseq (filterRecords R C) R
   \<and> set (filterRecords R C) \<subseteq> set R
   \<and> (\<forall>x. count_list (filterRecords R C) x \<le> count_list R x)
   \<and> subseq (results (search R C)) R
   \<and> filterRecords R \<lparr> q = None, category = None, minPrice = None, maxPrice = None \<rparr> = R"
proof -
  have sub: "subseq (filterRecords R C) R"
    by (rule subseq_filterRecords)
  have "set (filterRecords R C) \<subseteq> set R"
    using sub by (rule subseq_set_subset)
  moreover have "\<forall>x. count_list (filterRecords R C) x \<le> count_list R x"
    using sub by (simp add: subseq_count_list)
  moreover have "subseq (results (search R C)) R"
    using sub by (simp add: search_def Let_def)
  moreover have
    "filterRecords R \<lparr> q = None, category = None, minPrice = None, maxPrice = None \<rparr> = R"
    by (simp add: filterRecords_def filterName_def truthy_def filterCategory_absent
          filterMin_absent filterMax_absent)
  ultimately show ?thesis using sub by blast
qed

text \<open>
  C4. A record passes the name filter exactly when the lower-cased criterion occurs as a
  contiguous substring of the lower-cased product name. The equivalence is proved for
  every criterion string, so in particular for every non-empty one; for the empty string
  the right-hand side holds trivially. The criterion \<open>lap\<close> matches the name
  \<open>Laptop Dell XPS 15\<close>; an empty or absent criterion matches every record; and the
  first filtering step of the handler keeps exactly the records \<^const>\<open>matchesQuery\<close>
  accepts.
\<close>

theorem name_filter_is_substring_match:
  "(matchesQuery text (Some qs) \<longleftrightarrow>
      (\<exists>pre post. toLowerCase text = pre @ toLowerCase qs @ post))
   \<and> matchesQuery ''Laptop Dell XPS 15'' (Some ''lap'')
   \<and> matchesQuery text (Some []) \<and> matchesQuery text None
   \<and> filterName qv rs = filter (\<lambda>it. matchesQuery (product_name it) qv) rs"
proof -
  have iff: "matchesQuery text (Some qs) \<longleftrightarrow>
      (\<exists>pre post. toLowerCase text = pre @ toLowerCase qs @ post)"
  proof (cases "qs = []")
    case True
    have "toLowerCase text = [] @ toLowerCase [] @ toLowerCase text"
      by (simp add: toLowerCase_Nil)
    then have "\<exists>pre post. toLowerCase text = pre @ toLowerCase [] @ post"
      by blast
    with True show ?thesis
      by (simp add: matchesQuery_def)
  next
    case False
    then show ?thesis
      by (simp add: matchesQuery_def includes_str_iff)
  qed
  have lower: "toLowerCase ''Laptop Dell XPS 15'' = ''laptop dell xps 15''"
    "toLowerCase ''lap'' = ''lap''"
    by code_simp+
  have "''laptop dell xps 15'' = [] @ ''lap'' @ ''top dell xps 15''"
    by simp
  then have "\<exists>pre post. ''laptop dell xps 15'' = pre @ ''lap'' @ post"
    by blast
  then have ex: "matchesQuery ''Laptop Dell XPS 15'' (Some ''lap'')"
    by (simp add: matchesQuery_def includes_str_iff lower)
  have "matchesQuery text (Some [])" "matchesQuery text None"
    by (simp_all add: matchesQuery_def)
  with iff ex show ?thesis
    by (simp add: filterName_filter)
qed

text \<open>
  C7. For every store, \<^verbatim>\<open>/categories\<close> returns exactly the category values that occur
  in the store, without duplicates, in ascending lexicographic order; a store with the
  categories Electronics, Books, Electronics yields Books, Electronics.
\<close>

theorem categories_distinct_sorted:
  "set (categories R) = item.category ` set R
   \<and> distinct (categories R)
   \<and> sorted (categories R)
   \<and> categories [sample ''TV'' ''Electronics'' 300, sample ''Novel'' ''Books'' 12,
                  sample ''Radio'' ''Electronics'' 40] = [''Books'', ''Electronics'']"
proof -
  have "categories [sample ''TV'' ''Electronics'' 300, sample ''Novel'' ''Books'' 12,
                    sample ''Radio'' ''Electronics'' 40] = [''Books'', ''Electronics'']"
    by code_simp
  then show ?thesis
    by (simp add: categories_def getCategories_def set_new_Set distinct_new_Set)
qed

text \<open>
  C8. For every store, a \<^verbatim>\<open>/search\<close> request without parameters is answered with a
  success response whose results are the whole store in its order and whose count is the
  number of records in the store.
\<close>

theorem empty_query_returns_store:
  "search R \<lparr> q = None, category = None, minPrice = None, maxPrice = None \<rparr> =
     SearchSuccess (length R)
       \<lparr> q = None, category = None, minPrice = None, maxPrice = None \<rparr> R
   \<and> success (search R \<lparr> q = None, category = None, minPrice = None, maxPrice = None \<rparr>)
   \<and> results (search R \<lparr> q = None, category = None, minPrice = None, maxPrice = None \<rparr>) = R
   \<and> count (search R \<lparr> q = None, category = None, minPrice = None, maxPrice = None \<rparr>)
       = Some (length R)"
  by (simp add: search_def invalidRange_def filterRecords_def filterName_def truthy_def
        orNull_def filterCategory_absent filterMin_absent filterMax_absent)





text \<open>
  C5, as amended. A request with \<open>category=all\<close> gets the same results, status and
  count as the same request without a category parameter. For every category value that
  is not empty and not \<open>all\<close>, the category step keeps exactly the records whose
  category equals the value up to letter case.
\<close>

theorem category_filter_nonempty:
  "results (search R (req\<lparr>category := Some ''all''\<rparr>)) = results (search R (req\<lparr>category := None\<rparr>))
   \<and> status (search R (req\<lparr>category := Some ''all''\<rparr>)) = status (search R (req\<lparr>category := None\<rparr>))
   \<and> count (search R (req\<lparr>category := Some ''all''\<rparr>)) = count (search R (req\<lparr>category := None\<rparr>))
   \<and> (c \<noteq> [] \<and> c \<noteq> ''all'' \<longrightarrow>
        filterCategory (Some c) rs
          = filter (\<lambda>it. toLowerCase (item.category it) = toLowerCase c) rs
        \<and> (it \<in> set (filterCategory (Some c) rs)
             \<longleftrightarrow> it \<in> set rs \<and> toLowerCase (item.category it) = toLowerCase c))"
  by (simp add: results_search status_search count_search filterRecords_def
        filterCategory_absent filterCategory_applied)

text \<open>
  The value \<open>BOOKS\<close> selects the record of category \<open>Books\<close>.
\<close>

theorem category_filter_nonempty_witness:
  "filterCategory (Some ''BOOKS'') [sample ''Novel'' ''Books'' 12, sample ''TV'' ''Electronics'' 300]
     = [sample ''Novel'' ''Books'' 12]"
proof -
  have l: "toLowerCase ''BOOKS'' = ''books''" "toLowerCase ''Books'' = ''books''"
    "toLowerCase ''Electronics'' = ''electronics''"
    by code_simp+
  have ne: "''BOOKS'' \<noteq> [] \<and> ''BOOKS'' \<noteq> ''all''"
    by simp
  from ne category_filter_nonempty [of _ _ "''BOOKS''"
         "[sample ''Novel'' ''Books'' 12, sample ''TV'' ''Electronics'' 300]"]
  show ?thesis
    by (simp add: sample_def l)
qed

text \<open>
  C5 as it is written does not hold for the empty string, a category value other than
  \<open>all\<close>: the guard \<^verbatim>\<open>category && category !== 'all'\<close> skips the filter for it, so a
  record of category \<open>Books\<close> passes although its category does not equal the empty
  string in any letter case.
\<close>

theorem empty_category_counterexample:
  "[] \<noteq> ''all''
   \<and> sample ''Novel'' ''Books'' 12 \<in> set (results (search [sample ''Novel'' ''Books'' 12]
        \<lparr> q = None, category = Some [], minPrice = None, maxPrice = None \<rparr>))
   \<and> toLowerCase (item.category (sample ''Novel'' ''Books'' 12)) \<noteq> toLowerCase []"
  by (simp add: results_search invalidRange_def filterRecords_def filterName_def truthy_def
        filterCategory_absent filterMin_absent filterMax_absent sample_def toLowerCase_def)

text \<open>
  C6. For every store, a request whose \<open>minPrice\<close> parses to 100 and whose
  \<open>maxPrice\<close> parses to 500 returns, with no other criterion, exactly the records with
  \<open>100 \<le> price \<le> 500\<close>, both bounds included; with other criteria, exactly those
  among the records the name and category steps keep.
\<close>

theorem price_range_inclusive:
  "parseFloat smin = Num 100 \<Longrightarrow> parseFloat smax = Num 500 \<Longrightarrow>
     search R \<lparr> q = None, category = None, minPrice = Some smin, maxPrice = Some smax \<rparr> =
       SearchSuccess
         (length (filter (\<lambda>it. 100 \<le> price it \<and> price it \<le> 500) R))
         \<lparr> q = None, category = None, minPrice = Some smin, maxPrice = Some smax \<rparr>
         (filter (\<lambda>it. 100 \<le> price it \<and> price it \<le> 500) R)
     \<and> results (search R \<lparr> q = qv, category = cv, minPrice = Some smin, maxPrice = Some smax \<rparr>)
         = filter (\<lambda>it. 100 \<le> price it \<and> price it \<le> 500) (filterCategory cv (filterName qv R))"
proof -
  assume a: "parseFloat smin = Num 100" and b: "parseFloat smax = Num 500"
  have le: "(100::rat) \<le> 500" by simp
  have none: "filterName None R = R" "orNull None = None"
    by (simp_all add: filterName_def orNull_def truthy_def)
  show ?thesis
    using search_price_range [OF a b le, of R None None]
          search_price_range [OF a b le, of R qv cv]
    by (simp add: none filterCategory_absent)
qed

text \<open>
  With the literal parameters \<open>100\<close> and \<open>500\<close>, records priced exactly 100 and exactly
  500 are returned, records priced 99.99 and 500.01 are not.
\<close>

theorem price_range_inclusive_witness:
  "results (search [sample ''Pen'' ''Office'' (9999 / 100), sample ''Desk'' ''Office'' 100,
                    sample ''Chair'' ''Office'' 500, sample ''Sofa'' ''Home'' (50001 / 100)]
     \<lparr> q = None, category = None, minPrice = Some ''100'', maxPrice = Some ''500'' \<rparr>)
     = [sample ''Desk'' ''Office'' 100, sample ''Chair'' ''Office'' 500]"
proof -
  have a: "parseFloat ''100'' = Num 100" and b: "parseFloat ''500'' = Num 500"
    by code_simp+
  from price_range_inclusive [OF a b] show ?thesis
    by (simp add: sample_def)
qed

text \<open>
  C9. The sentinel test is sensitive to letter case. For a value that spells \<open>all\<close> in
  another casing, the category step is applied and keeps the records whose category
  equals the value up to letter case; on a store without such a category the results are
  empty. The exact string \<open>all\<close> switches the step off.
\<close>

theorem sentinel_is_case_sensitive:
  "(c \<noteq> ''all'' \<and> toLowerCase c = ''all'' \<longrightarrow>
      filterCategory (Some c) rs
        = filter (\<lambda>it. toLowerCase (item.category it) = toLowerCase c) rs
      \<and> ((\<forall>it \<in> set R. toLowerCase (item.category it) \<noteq> ''all'') \<longrightarrow>
           results (search R (req\<lparr>category := Some c\<rparr>)) = []))
   \<and> filterCategory (Some ''all'') rs = rs"
proof -
  have main: "filterCategory (Some c) rs
        = filter (\<lambda>it. toLowerCase (item.category it) = toLowerCase c) rs
      \<and> ((\<forall>it \<in> set R. toLowerCase (item.category it) \<noteq> ''all'') \<longrightarrow>
           results (search R (req\<lparr>category := Some c\<rparr>)) = [])"
    if c: "c \<noteq> ''all'' \<and> toLowerCase c = ''all''"
  proof -
    from c have ne: "c \<noteq> []"
      by (auto simp: toLowerCase_Nil)
    have app: "filterCategory (Some c) xs
        = filter (\<lambda>it. toLowerCase (item.category it) = toLowerCase c) xs" for xs
      using ne c by (simp add: filterCategory_applied)
    have "results (search R (req\<lparr>category := Some c\<rparr>)) = []"
      if none: "\<forall>it \<in> set R. toLowerCase (item.category it) \<noteq> ''all''"
    proof -
      have "set (filterName (q req) R) \<subseteq> set R"
        by (rule subseq_set_subset [OF subseq_filterName])
      with none have "filter (\<lambda>it. toLowerCase (item.category it) = toLowerCase c)
                        (filterName (q req) R) = []"
        using c by (auto simp: filter_empty_conv)
      then show ?thesis
        by (simp add: results_search filterRecords_def app filterMin_Nil filterMax_Nil)
    qed
    with app show ?thesis by blast
  qed
  then show ?thesis
    by (simp add: filterCategory_absent)
qed

text \<open>
  \<open>All\<close> and \<open>ALL\<close> give empty results on a store with the categories Books and
  Electronics, and \<open>ALL\<close> selects a record whose category is \<open>all\<close>.
\<close>

theorem sentinel_is_case_sensitive_witness:
  "results (search [sample ''Novel'' ''Books'' 12, sample ''TV'' ''Electronics'' 300]
     \<lparr> q = None, category = Some ''All'', minPrice = None, maxPrice = None \<rparr>) = []
   \<and> results (search [sample ''Novel'' ''Books'' 12, sample ''TV'' ''Electronics'' 300]
     \<lparr> q = None, category = Some ''ALL'', minPrice = None, maxPrice = None \<rparr>) = []
   \<and> filterCategory (Some ''ALL'') [sample ''Misc'' ''all'' 1, sample ''TV'' ''Electronics'' 300]
       = [sample ''Misc'' ''all'' 1]"
proof -
  let ?R = "[sample ''Novel'' ''Books'' 12, sample ''TV'' ''Electronics'' 300]"
  let ?req = "\<lparr> q = None, category = None, minPrice = None, maxPrice = None \<rparr>"
  have l: "toLowerCase ''All'' = ''all''" "toLowerCase ''ALL'' = ''all''"
    "toLowerCase ''Books'' = ''books''" "toLowerCase ''Electronics'' = ''electronics''"
    "toLowerCase ''all'' = ''all''"
    by code_simp+
  have c1: "''All'' \<noteq> ''all'' \<and> toLowerCase ''All'' = ''all''"
    and c2: "''ALL'' \<noteq> ''all'' \<and> toLowerCase ''ALL'' = ''all''"
    by (simp_all add: l)
  have none: "\<forall>it \<in> set ?R. toLowerCase (item.category it) \<noteq> ''all''"
    by (simp add: sample_def l)
  from c1 c2 none
    sentinel_is_case_sensitive [of "''All''" _ ?R ?req]
    sentinel_is_case_sensitive [of "''ALL''" "[sample ''Misc'' ''all'' 1, sample ''TV'' ''Electronics'' 300]" ?R ?req]
  show ?thesis
    by (simp add: sample_def l)
qed

text \<open>
  C10. An empty string given for \<open>q\<close>, \<open>minPrice\<close> or \<open>maxPrice\<close> is treated exactly as
  an absent parameter: the whole response, the echoed \<^verbatim>\<open>query\<close> object included, is the
  one of the request without that parameter. In detail, the step it guards does not
  filter, the range validation does not fire, and the parameter is echoed as \<^verbatim>\<open>null\<close>.
\<close>

theorem empty_string_is_absent:
  "search R (req\<lparr>q := Some []\<rparr>) = search R (req\<lparr>q := None\<rparr>)
   \<and> search R (req\<lparr>minPrice := Some []\<rparr>) = search R (req\<lparr>minPrice := None\<rparr>)
   \<and> search R (req\<lparr>maxPrice := Some []\<rparr>) = search R (req\<lparr>maxPrice := None\<rparr>)
   \<and> filterName (Some []) rs = rs \<and> filterMin (Some []) rs = rs \<and> filterMax (Some []) rs = rs
   \<and> \<not> invalidRange (Some []) mx \<and> \<not> invalidRange mn (Some [])
   \<and> orNull (Some []) = None"
proof -
  have inv: "invalidRange (Some []) mx = invalidRange None mx"
    "invalidRange mn (Some []) = invalidRange mn None" for mn mx
    by (simp_all add: invalidRange_iff parsed_def parseFloat_Nil)
  have noinv: "\<not> invalidRange None mx" "\<not> invalidRange mn None" for mn mx
    by (simp_all add: invalidRange_iff parsed_def isNaN_def)
  have nm: "filterName (Some []) xs = filterName None xs" "filterName (Some []) xs = xs" for xs
    by (simp_all add: filterName_def truthy_def)
  have nul: "orNull (Some []) = None" "orNull None = None"
    by (simp_all add: orNull_def truthy_def)
  have 1: "search R (req\<lparr>q := Some []\<rparr>) = search R (req\<lparr>q := None\<rparr>)"
    by (simp add: search_def Let_def filterRecords_def nm nul)
  have 2: "search R (req\<lparr>minPrice := Some []\<rparr>) = search R (req\<lparr>minPrice := None\<rparr>)"
    by (simp add: search_def Let_def filterRecords_def filterMin_absent inv nul)
  have 3: "search R (req\<lparr>maxPrice := Some []\<rparr>) = search R (req\<lparr>maxPrice := None\<rparr>)"
    by (simp add: search_def Let_def filterRecords_def filterMax_absent inv nul)
  from 1 2 3 show ?thesis
    by (simp add: nm(2) nul(1) noinv inv filterMin_absent filterMax_absent)
qed

end
